theory Spec2Isabelle
  imports Main
begin

section \<open>Data model\<close>

text \<open>
  The Python class \<^verbatim>\<open>Sudoku\<close> keeps two grids, \<^verbatim>\<open>initial_board\<close> and
  \<^verbatim>\<open>solution\<close>. Each is a list of lists whose entries are an integer or
  \<^verbatim>\<open>None\<close>. Python integers are unbounded, so an entry is an \<open>int option\<close>.
  The two exceptions the methods can raise are values of \<open>error\<close>: an index out of
  range, and the interpreter's recursion limit being exceeded.
\<close>

datatype error = IndexError | RecursionError

type_synonym cell = "int option"

type_synonym grid = "cell list list"

record sudoku =
  initial_board :: grid
  solution :: grid

section \<open>Construction\<close>

text \<open>
  \<^verbatim>\<open>zip\<close> over the unpacked rows yields one tuple per index that every row has: tuple \<open>k\<close> holds
  entry \<open>k\<close> of each row, and the shortest row decides how many tuples there are.
  With no rows at all there is no tuple.
\<close>

definition zip_star :: "'a list list \<Rightarrow> 'a list list" where
  "zip_star board =
     (case board of
        [] \<Rightarrow> []
      | r # rs \<Rightarrow> map (\<lambda>k. map (\<lambda>row. row ! k) board) [0..<fold min (map length rs) (length r)])"

text \<open>\<^verbatim>\<open>int(e) if e else None\<close>: \<^verbatim>\<open>None\<close> and \<^verbatim>\<open>0\<close> are falsy.\<close>

definition store_entry :: "cell \<Rightarrow> cell" where
  "store_entry e = (case e of None \<Rightarrow> None | Some v \<Rightarrow> if v = 0 then None else Some v)"

definition Sudoku_init :: "grid \<Rightarrow> sudoku" where
  "Sudoku_init board =
     \<lparr> initial_board = map (map store_entry) (zip_star board),
       solution = map (map store_entry) (zip_star board) \<rparr>"

section \<open>Region queries\<close>

text \<open>
  The methods read and write \<^verbatim>\<open>self.solution\<close> only, so each takes that grid as
  its first argument. \<^verbatim>\<open>column[idx]\<close> raises when a stored list is too short; a
  slice never raises.
\<close>

definition get_row :: "grid \<Rightarrow> nat \<Rightarrow> error + cell list" where
  "get_row s idx =
     (if list_all (\<lambda>column. idx < length column) s
      then Inr (map (\<lambda>column. column ! idx) s)
      else Inl IndexError)"

definition get_column :: "grid \<Rightarrow> nat \<Rightarrow> error + cell list" where
  "get_column s idx = (if idx < length s then Inr (s ! idx) else Inl IndexError)"

definition get_nine_square :: "grid \<Rightarrow> nat \<Rightarrow> nat \<Rightarrow> cell list list" where
  "get_nine_square s x y = map (\<lambda>row. take 3 (drop (3 * y) row)) (take 3 (drop (3 * x) s))"

section \<open>Checking\<close>

text \<open>\<^verbatim>\<open>range(1, 10)\<close>, as the values a region is compared with.\<close>

definition range_1_10 :: "int list" where
  "range_1_10 = [1, 2, 3, 4, 5, 6, 7, 8, 9]"

definition check_row :: "grid \<Rightarrow> nat \<Rightarrow> error + bool" where
  "check_row s row =
     (case get_row s row of
        Inl e \<Rightarrow> Inl e
      | Inr vs \<Rightarrow> Inr (set vs = set (map Some range_1_10)))"

definition check_column :: "grid \<Rightarrow> nat \<Rightarrow> error + bool" where
  "check_column s column =
     (case get_column s column of
        Inl e \<Rightarrow> Inl e
      | Inr vs \<Rightarrow> Inr (set vs = set (map Some range_1_10)))"

definition check_nine_square :: "grid \<Rightarrow> nat \<Rightarrow> nat \<Rightarrow> bool" where
  "check_nine_square s x y = (set (concat (get_nine_square s x y)) = set (map Some range_1_10))"

text \<open>
  The first \<^verbatim>\<open>all(...)\<close> of \<^verbatim>\<open>check\<close>: for each index the list
  \<^verbatim>\<open>[check_row(idx), check_column(idx)]\<close> is built, so both calls run, and then
  \<^verbatim>\<open>all\<close> stops at the first false element.
\<close>

fun check_lines :: "grid \<Rightarrow> nat list \<Rightarrow> error + bool" where
  "check_lines s [] = Inr True"
| "check_lines s (idx # rest) =
     (case check_row s idx of
        Inl e \<Rightarrow> Inl e
      | Inr vr \<Rightarrow>
          (case check_column s idx of
             Inl e \<Rightarrow> Inl e
           | Inr vc \<Rightarrow> if vr \<and> vc then check_lines s rest else Inr False))"

definition check :: "grid \<Rightarrow> error + bool" where
  "check s =
     (case check_lines s [0..<9] of
        Inl e \<Rightarrow> Inl e
      | Inr False \<Rightarrow> Inr False
      | Inr True \<Rightarrow>
          Inr (list_all (\<lambda>(x, y). check_nine_square s x y)
                 (concat (map (\<lambda>x. map (\<lambda>y. (x, y)) [0..<3]) [0..<3]))))"

section \<open>Solving\<close>

text \<open>
  \<^verbatim>\<open>find_empty\<close>: the outer loop runs over \<open>i\<close>, the inner one over \<open>j\<close>; the cell
  read is \<^verbatim>\<open>self.solution[j][i]\<close> and the pair returned is \<open>(j, i)\<close>.
\<close>

fun find_empty_scan :: "grid \<Rightarrow> (nat \<times> nat) list \<Rightarrow> error + (nat \<times> nat) option" where
  "find_empty_scan s [] = Inr None"
| "find_empty_scan s ((i, j) # rest) =
     (if j < length s \<and> i < length (s ! j)
      then (if s ! j ! i = None then Inr (Some (j, i)) else find_empty_scan s rest)
      else Inl IndexError)"

definition find_empty :: "grid \<Rightarrow> error + (nat \<times> nat) option" where
  "find_empty s = find_empty_scan s (concat (map (\<lambda>i. map (\<lambda>j. (i, j)) [0..<9]) [0..<9]))"

definition is_valid :: "grid \<Rightarrow> int \<Rightarrow> nat \<times> nat \<Rightarrow> error + bool" where
  "is_valid s num pos =
     (case get_row s (snd pos) of
        Inl e \<Rightarrow> Inl e
      | Inr r \<Rightarrow>
          if Some num \<in> set r then Inr False
          else
            (case get_column s (fst pos) of
               Inl e \<Rightarrow> Inl e
             | Inr c \<Rightarrow>
                 if Some num \<in> set c then Inr False
                 else
                   (let x = fst pos div 3; y = snd pos div 3
                    in if Some num \<in> set (concat (get_nine_square s x y)) then Inr False
                       else Inr True)))"

text \<open>\<^verbatim>\<open>self.solution[col][row] = v\<close>.\<close>

definition set_cell :: "grid \<Rightarrow> nat \<Rightarrow> nat \<Rightarrow> cell \<Rightarrow> error + grid" where
  "set_cell s col row v =
     (if col < length s \<and> row < length (s ! col)
      then Inr (s[col := (s ! col)[row := v]])
      else Inl IndexError)"

text \<open>
  The \<^verbatim>\<open>for num in range(1, 10)\<close> loop of \<^verbatim>\<open>backtrack_solve\<close>, over the candidates
  still to try. \<open>rec\<close> is the recursive call. The result pairs what the call returns
  or raises with the grid it leaves behind: an exception leaves the grid as it was when
  raised.
\<close>

fun try_nums ::
  "(grid \<Rightarrow> (error + bool) \<times> grid) \<Rightarrow> nat \<Rightarrow> nat \<Rightarrow> int list \<Rightarrow> grid \<Rightarrow> (error + bool) \<times> grid"
where
  "try_nums rec row col [] s = (Inr False, s)"
| "try_nums rec row col (num # nums) s =
     (case is_valid s num (col, row) of
        Inl e \<Rightarrow> (Inl e, s)
      | Inr False \<Rightarrow> try_nums rec row col nums s
      | Inr True \<Rightarrow>
          (case set_cell s col row (Some num) of
             Inl e \<Rightarrow> (Inl e, s)
           | Inr s1 \<Rightarrow>
               (case rec s1 of
                  (Inl e, s2) \<Rightarrow> (Inl e, s2)
                | (Inr True, s2) \<Rightarrow> (Inr True, s2)
                | (Inr False, s2) \<Rightarrow>
                    (case set_cell s2 col row None of
                       Inl e \<Rightarrow> (Inl e, s2)
                     | Inr s3 \<Rightarrow> try_nums rec row col nums s3))))"

text \<open>
  \<^verbatim>\<open>backtrack_solve\<close>. The first argument is the number of nested calls the
  interpreter still allows; a call beyond it raises \<^verbatim>\<open>RecursionError\<close>.
  \<^verbatim>\<open>row, col = empty\<close> names the first component of the pair \<open>row\<close>.
\<close>

fun backtrack_solve :: "nat \<Rightarrow> grid \<Rightarrow> (error + bool) \<times> grid" where
  "backtrack_solve 0 s = (Inl RecursionError, s)"
| "backtrack_solve (Suc depth) s =
     (case find_empty s of
        Inl e \<Rightarrow> (Inl e, s)
      | Inr None \<Rightarrow> (Inr True, s)
      | Inr (Some (row, col)) \<Rightarrow> try_nums (backtrack_solve depth) row col range_1_10 s)"

definition solve :: "nat \<Rightarrow> grid \<Rightarrow> (error + grid option) \<times> grid" where
  "solve depth s =
     (case backtrack_solve depth s of
        (Inl e, s') \<Rightarrow> (Inl e, s')
      | (Inr True, s') \<Rightarrow> (Inr (Some s'), s')
      | (Inr False, s') \<Rightarrow> (Inr None, s'))"

section \<open>Coordinates and shapes\<close>

text \<open>
  The constructor stores the transpose of the rows it is given, so the cell of row \<open>r\<close>
  and column \<open>c\<close> is entry \<open>r\<close> of stored list \<open>c\<close>.
\<close>

definition cell_at :: "grid \<Rightarrow> nat \<Rightarrow> nat \<Rightarrow> cell" where
  "cell_at s r c = s ! c ! r"

definition wf_grid :: "grid \<Rightarrow> bool" where
  "wf_grid s = (length s = 9 \<and> list_all (\<lambda>column. length column = 9) s)"

text \<open>The input the specification asks for: 9 rows of 9 entries, each empty or 1 to 9.\<close>

definition valid_entry :: "cell \<Rightarrow> bool" where
  "valid_entry e = (case e of None \<Rightarrow> True | Some d \<Rightarrow> 1 \<le> d \<and> d \<le> 9)"

definition valid_input :: "grid \<Rightarrow> bool" where
  "valid_input board =
     (length board = 9 \<and> list_all (\<lambda>row. length row = 9 \<and> list_all valid_entry row) board)"

section \<open>The specification's regions\<close>

text \<open>
  What the specification says of a region, written from its words: the cells of a row
  left to right, of a column top to bottom, of a block row by row; a region is complete
  when its non-empty values, as a set, are exactly 1 to 9.
\<close>

definition nonempty_values :: "cell list \<Rightarrow> int set" where
  "nonempty_values vs = set (map the (filter (\<lambda>e. e \<noteq> None) vs))"

definition region_complete :: "cell list \<Rightarrow> bool" where
  "region_complete vs = (nonempty_values vs = {1..9})"

definition row_cells :: "grid \<Rightarrow> nat \<Rightarrow> cell list" where
  "row_cells s r = map (\<lambda>c. cell_at s r c) [0..<9]"

definition column_cells :: "grid \<Rightarrow> nat \<Rightarrow> cell list" where
  "column_cells s c = map (\<lambda>r. cell_at s r c) [0..<9]"

definition block_cells :: "grid \<Rightarrow> nat \<Rightarrow> nat \<Rightarrow> cell list" where
  "block_cells s br bc =
     concat (map (\<lambda>r. map (\<lambda>c. cell_at s r c) [3 * bc..<3 * bc + 3]) [3 * br..<3 * br + 3])"

definition all_regions_complete :: "grid \<Rightarrow> bool" where
  "all_regions_complete s =
     (list_all (\<lambda>r. region_complete (row_cells s r)) [0..<9] \<and>
      list_all (\<lambda>c. region_complete (column_cells s c)) [0..<9] \<and>
      list_all (\<lambda>(br, bc). region_complete (block_cells s br bc))
        (concat (map (\<lambda>br. map (\<lambda>bc. (br, bc)) [0..<3]) [0..<3])))"

definition full_grid :: "grid \<Rightarrow> bool" where
  "full_grid s = list_all (list_all (\<lambda>e. e \<noteq> None)) s"

section \<open>Boards used as concrete inputs\<close>

text \<open>A complete board that satisfies every row, column and block rule.\<close>

definition full_board :: grid where
  "full_board = map (map Some)
    [[1, 2, 3, 4, 5, 6, 7, 8, 9],
     [4, 5, 6, 7, 8, 9, 1, 2, 3],
     [7, 8, 9, 1, 2, 3, 4, 5, 6],
     [2, 3, 4, 5, 6, 7, 8, 9, 1],
     [5, 6, 7, 8, 9, 1, 2, 3, 4],
     [8, 9, 1, 2, 3, 4, 5, 6, 7],
     [3, 4, 5, 6, 7, 8, 9, 1, 2],
     [6, 7, 8, 9, 1, 2, 3, 4, 5],
     [9, 1, 2, 3, 4, 5, 6, 7, 8]]"

text \<open>\<open>full_board\<close> with the entry of row 0, column 1 removed.\<close>

definition hole_board :: grid where
  "hole_board = full_board[0 := (full_board ! 0)[1 := None]]"

text \<open>The puzzle of the script's entry point.\<close>

definition main_board :: grid where
  "main_board =
     [[Some 4, Some 1, None, Some 3, None, Some 6, None, Some 9, Some 7],
      [Some 6, None, None, Some 7, None, None, None, Some 5, None],
      [None, None, None, None, None, None, None, None, None],
      [None, None, Some 9, None, Some 7, Some 3, None, None, Some 2],
      [None, None, Some 8, None, None, None, Some 9, None, None],
      [Some 7, None, None, Some 9, Some 8, None, Some 6, None, None],
      [None, None, None, None, None, None, None, None, None],
      [None, Some 3, None, None, None, Some 8, None, None, Some 6],
      [Some 9, Some 5, None, Some 6, None, Some 7, None, Some 3, Some 8]]"

text \<open>A full board that breaks every rule: each cell holds 1.\<close>

definition ones_board :: grid where
  "ones_board = replicate 9 (replicate 9 (Some 1))"

text \<open>A board with the digit 2 twice in row 1.\<close>

definition dup_board :: grid where
  "dup_board =
     [[Some 1, None, None, None, None, None, None, None, None],
      [Some 2, Some 2, Some 3, Some 4, Some 5, Some 6, Some 7, Some 8, None],
      [None, None, None, None, None, None, None, None, None],
      [None, None, None, None, None, None, None, None, None],
      [None, None, None, None, None, None, None, None, None],
      [None, None, None, None, None, None, None, None, None],
      [None, None, None, None, None, None, None, None, None],
      [None, None, None, None, None, None, None, None, None],
      [None, None, None, None, None, None, None, None, None]]"

text \<open>A board with two clues, 1 at row 0, column 0 and 9 at row 1, column 0.\<close>

definition two_clue_board :: grid where
  "two_clue_board =
     [[Some 1, None, None, None, None, None, None, None, None],
      [Some 9, None, None, None, None, None, None, None, None],
      [None, None, None, None, None, None, None, None, None],
      [None, None, None, None, None, None, None, None, None],
      [None, None, None, None, None, None, None, None, None],
      [None, None, None, None, None, None, None, None, None],
      [None, None, None, None, None, None, None, None, None],
      [None, None, None, None, None, None, None, None, None],
      [None, None, None, None, None, None, None, None, None]]"

text \<open>
  The working grid constructed from a board, with entry \<open>row\<close> of stored list \<open>col\<close>
  replaced by \<open>v\<close>.
\<close>

definition grid_with :: "grid \<Rightarrow> nat \<Rightarrow> nat \<Rightarrow> cell \<Rightarrow> grid" where
  "grid_with board col row v =
     (solution (Sudoku_init board))[col := (solution (Sudoku_init board) ! col)[row := v]]"

section \<open>Reading a 9 by 9 grid\<close>

lemma take_drop_nth: "n + m \<le> length xs \<Longrightarrow> take m (drop n xs) = map (\<lambda>k. xs ! k) [n..<n + m]"
  by (rule nth_equalityI) (auto simp: add.commute)

lemma wf_grid_column_length: "wf_grid s \<Longrightarrow> c < 9 \<Longrightarrow> length (s ! c) = 9"
  by (simp add: wf_grid_def list_all_length)

lemma get_row_cells:
  assumes "wf_grid s" "r < 9"
  shows "get_row s r = Inr (map (\<lambda>c. cell_at s r c) [0..<9])"
proof -
  have len: "length s = 9" using assms by (simp add: wf_grid_def)
  have "list_all (\<lambda>column. r < length column) s"
    using assms by (auto simp: wf_grid_def list_all_length)
  moreover have "map (\<lambda>column. column ! r) s = map (\<lambda>c. cell_at s r c) [0..<9]"
    by (rule nth_equalityI) (simp_all add: len cell_at_def)
  ultimately show ?thesis by (simp add: get_row_def)
qed

lemma get_column_cells:
  assumes "wf_grid s" "c < 9"
  shows "get_column s c = Inr (map (\<lambda>r. cell_at s r c) [0..<9])"
proof -
  have len: "length s = 9" using assms by (simp add: wf_grid_def)
  have "s ! c = map (\<lambda>r. cell_at s r c) [0..<9]"
    by (rule nth_equalityI) (simp_all add: wf_grid_column_length[OF assms] cell_at_def)
  then show ?thesis using assms by (simp add: get_column_def len)
qed

lemma get_nine_square_cells:
  assumes "wf_grid s" "x < 3" "y < 3"
  shows "get_nine_square s x y =
           map (\<lambda>c. map (\<lambda>r. cell_at s r c) [3 * y..<3 * y + 3]) [3 * x..<3 * x + 3]"
proof -
  have len: "length s = 9" using assms by (simp add: wf_grid_def)
  have outer: "take 3 (drop (3 * x) s) = map (\<lambda>k. s ! k) [3 * x..<3 * x + 3]"
    using assms len by (intro take_drop_nth) simp
  have inner: "take 3 (drop (3 * y) (s ! c)) = map (\<lambda>r. cell_at s r c) [3 * y..<3 * y + 3]"
    if "c < 9" for c
    using assms that wf_grid_column_length[OF assms(1) that]
    by (simp add: take_drop_nth cell_at_def)
  show ?thesis
    unfolding get_nine_square_def outer using assms(2) inner by (auto simp: map_eq_conv)
qed

lemma in_block_iff: "(3 * x \<le> k \<and> k < 3 * x + 3) = (k div 3 = (x::nat))"
  by presburger

lemma block_members:
  assumes "x < 3" "y < 3"
  shows "set (concat (map (\<lambda>c. map (\<lambda>r. cell_at s r c) [3 * y..<3 * y + 3]) [3 * x..<3 * x + 3]))
         = {v. \<exists>r<9. \<exists>c<9. r div 3 = y \<and> c div 3 = x \<and> cell_at s r c = v}"
proof -
  have lt: "k < 9" if "k div 3 = z" "z < 3" for k z :: nat
    using that by presburger
  show ?thesis
  proof (intro equalityI subsetI)
    fix v
    assume "v \<in> set (concat (map (\<lambda>c. map (\<lambda>r. cell_at s r c) [3 * y..<3 * y + 3]) [3 * x..<3 * x + 3]))"
    then obtain c r where c: "3 * x \<le> c \<and> c < 3 * x + 3" and r: "3 * y \<le> r \<and> r < 3 * y + 3"
      and v: "v = cell_at s r c"
      by auto
    from c r have "c div 3 = x" "r div 3 = y" by (simp_all add: in_block_iff)
    with assms v lt show "v \<in> {v. \<exists>r<9. \<exists>c<9. r div 3 = y \<and> c div 3 = x \<and> cell_at s r c = v}"
      by blast
  next
    fix v
    assume "v \<in> {v. \<exists>r<9. \<exists>c<9. r div 3 = y \<and> c div 3 = x \<and> cell_at s r c = v}"
    then obtain r c where rc: "r div 3 = y" "c div 3 = x" and v: "cell_at s r c = v"
      by blast
    from rc have "3 * x \<le> c \<and> c < 3 * x + 3" "3 * y \<le> r \<and> r < 3 * y + 3"
      by (simp_all add: in_block_iff)
    then have "c \<in> set [3 * x..<3 * x + 3]" "r \<in> set [3 * y..<3 * y + 3]"
      by simp_all
    then have "cell_at s r c \<in> (\<Union>c\<in>set [3 * x..<3 * x + 3]. (\<lambda>r. cell_at s r c) ` set [3 * y..<3 * y + 3])"
      by blast
    with v show "v \<in> set (concat (map (\<lambda>c. map (\<lambda>r. cell_at s r c) [3 * y..<3 * y + 3]) [3 * x..<3 * x + 3]))"
      by (simp only: set_concat set_map image_image)
  qed
qed

lemma row_members: "set (map (\<lambda>c. cell_at s r c) [0..<9]) = {v. \<exists>c<9. cell_at s r c = v}"
  by auto

lemma column_members: "set (map (\<lambda>r. cell_at s r c) [0..<9]) = {v. \<exists>r<9. cell_at s r c = v}"
  by auto

lemma nonempty_values_iff: "v \<in> nonempty_values vs \<longleftrightarrow> Some v \<in> set vs"
  by (force simp: nonempty_values_def image_iff)

lemma set_range_1_10: "set (map Some range_1_10) = Some ` {1..9}"
proof -
  have "set range_1_10 = {1..9}"
    unfolding range_1_10_def by auto
  then show ?thesis by simp
qed

lemma set_eq_digits_iff:
  assumes "length vs = 9"
  shows "(set vs = set (map Some range_1_10)) = region_complete vs"
proof
  assume "set vs = set (map Some range_1_10)"
  then have "set vs = Some ` {1..9}" by (simp only: set_range_1_10)
  then show "region_complete vs"
    unfolding region_complete_def by (auto simp: nonempty_values_iff)
next
  assume "region_complete vs"
  then have ne: "\<And>v. Some v \<in> set vs \<longleftrightarrow> v \<in> {1..9}"
    unfolding region_complete_def using nonempty_values_iff by blast
  then have sub: "Some ` {1..9} \<subseteq> set vs" by blast
  have "card (Some ` {1..9::int}) = 9"
    by (simp add: card_image)
  moreover have "card (set vs) \<le> 9"
    using card_length[of vs] assms by simp
  ultimately have "card (set vs) \<le> card (Some ` {1..9::int})" by simp
  with sub have "Some ` {1..9} = set vs"
    by (intro card_seteq) simp_all
  then show "set vs = set (map Some range_1_10)" by (simp only: set_range_1_10)
qed

lemma region_complete_no_None:
  assumes "length vs = 9" "region_complete vs"
  shows "None \<notin> set vs"
proof -
  from assms have "set vs = Some ` {1..9}"
    using set_eq_digits_iff set_range_1_10 by metis
  then show ?thesis by blast
qed

lemma region_complete_cong: "set vs = set ws \<Longrightarrow> region_complete vs = region_complete ws"
  by (simp add: region_complete_def nonempty_values_def)

lemma check_row_complete:
  "wf_grid s \<Longrightarrow> r < 9 \<Longrightarrow> check_row s r = Inr (region_complete (row_cells s r))"
  by (simp add: check_row_def get_row_cells row_cells_def set_eq_digits_iff del: set_map)

lemma check_column_complete:
  "wf_grid s \<Longrightarrow> c < 9 \<Longrightarrow> check_column s c = Inr (region_complete (column_cells s c))"
  by (simp add: check_column_def get_column_cells column_cells_def set_eq_digits_iff del: set_map)

lemma check_lines_complete:
  assumes "wf_grid s"
  shows "list_all (\<lambda>i. i < 9) idxs \<Longrightarrow>
         check_lines s idxs =
           Inr (list_all (\<lambda>i. region_complete (row_cells s i) \<and> region_complete (column_cells s i)) idxs)"
  by (induction idxs) (auto simp: check_row_complete[OF assms] check_column_complete[OF assms])

lemma block_cells_set:
  "set (block_cells s br bc) =
   set (concat (map (\<lambda>c. map (\<lambda>r. cell_at s r c) [3 * br..<3 * br + 3]) [3 * bc..<3 * bc + 3]))"
  unfolding block_cells_def by auto

lemma check_nine_square_complete:
  assumes "wf_grid s" "x < 3" "y < 3"
  shows "check_nine_square s x y = region_complete (block_cells s y x)"
proof -
  have len: "length (concat (get_nine_square s x y)) = 9"
    unfolding get_nine_square_cells[OF assms] by (simp add: length_concat comp_def sum_list_triv)
  have "set (concat (get_nine_square s x y)) = set (block_cells s y x)"
    unfolding get_nine_square_cells[OF assms] block_cells_set ..
  then have "region_complete (concat (get_nine_square s x y)) = region_complete (block_cells s y x)"
    by (rule region_complete_cong)
  then show ?thesis
    unfolding check_nine_square_def using set_eq_digits_iff[OF len] by simp
qed

lemma upt_3: "[0..<3] = [0, 1, 2]"
  by (simp add: upt_rec)

lemma check_complete:
  assumes "wf_grid s"
  shows "check s = Inr (all_regions_complete s)"
proof -
  have lines: "check_lines s [0..<9] =
      Inr (list_all (\<lambda>i. region_complete (row_cells s i) \<and> region_complete (column_cells s i)) [0..<9])"
    by (rule check_lines_complete[OF assms]) (simp add: list_all_iff)
  have split: "list_all (\<lambda>i. region_complete (row_cells s i) \<and> region_complete (column_cells s i)) [0..<9]
      = (list_all (\<lambda>r. region_complete (row_cells s r)) [0..<9] \<and>
         list_all (\<lambda>c. region_complete (column_cells s c)) [0..<9])"
    by (auto simp: list_all_iff)
  have blocks: "list_all (\<lambda>(x, y). check_nine_square s x y)
        (concat (map (\<lambda>x. map (\<lambda>y. (x, y)) [0..<3]) [0..<3]))
      = list_all (\<lambda>(br, bc). region_complete (block_cells s br bc))
        (concat (map (\<lambda>br. map (\<lambda>bc. (br, bc)) [0..<3]) [0..<3]))"
    unfolding upt_3 by (simp add: check_nine_square_complete[OF assms]) blast
  show ?thesis
    unfolding check_def lines all_regions_complete_def split blocks
    by (auto split: bool.splits)
qed

lemma complete_full:
  assumes "wf_grid s" "all_regions_complete s"
  shows "full_grid s"
proof -
  have "list_all (\<lambda>e. e \<noteq> None) col" if "col \<in> set s" for col
  proof -
    from that obtain c where c: "c < 9" "col = s ! c"
      using assms(1) by (auto simp: wf_grid_def in_set_conv_nth)
    have cells: "column_cells s c = col"
      unfolding column_cells_def c(2)
      by (rule nth_equalityI[symmetric])
         (simp_all add: wf_grid_column_length[OF assms(1) c(1)] cell_at_def)
    have "region_complete (column_cells s c)"
      using assms(2) c(1) by (simp add: all_regions_complete_def list_all_iff)
    moreover have "length col = 9"
      using wf_grid_column_length[OF assms(1) c(1)] c(2) by simp
    ultimately have "None \<notin> set col"
      using region_complete_no_None cells by metis
    then have "e \<noteq> None" if "e \<in> set col" for e
      using that by metis
    then show ?thesis by (simp add: list_all_iff)
  qed
  then show ?thesis by (simp add: full_grid_def list_all_iff)
qed

section \<open>Placement test\<close>

text \<open>
  Claim C5. On a 9 by 9 working grid, for a row \<open>r\<close> and a column \<open>c\<close> below 9,
  \<^verbatim>\<open>is_valid(d, (c, r))\<close> returns false exactly when \<open>d\<close> already stands in row \<open>r\<close>,
  in column \<open>c\<close> or in the 3 by 3 block that holds the cell, and true otherwise; it
  never raises there. The position is the pair the solver passes: column first.
\<close>

theorem is_valid_iff:
  assumes "wf_grid s" "r < 9" "c < 9"
  shows "is_valid s d (c, r) =
           Inr (\<not> ((\<exists>c'<9. cell_at s r c' = Some d) \<or>
                    (\<exists>r'<9. cell_at s r' c = Some d) \<or>
                    (\<exists>r'<9. \<exists>c'<9. r' div 3 = r div 3 \<and> c' div 3 = c div 3 \<and>
                        cell_at s r' c' = Some d)))"
proof -
  have x: "c div 3 < 3" and y: "r div 3 < 3" using assms by simp_all
  have blk: "(Some d \<in> set (concat (get_nine_square s (c div 3) (r div 3)))) =
        (\<exists>r'<9. \<exists>c'<9. r' div 3 = r div 3 \<and> c' div 3 = c div 3 \<and> cell_at s r' c' = Some d)"
    unfolding get_nine_square_cells[OF assms(1) x y] block_members[OF x y] by blast
  have row: "(Some d \<in> set (map (\<lambda>c. cell_at s r c) [0..<9])) = (\<exists>c'<9. cell_at s r c' = Some d)"
    unfolding row_members by blast
  have col: "(Some d \<in> set (map (\<lambda>r. cell_at s r c) [0..<9])) = (\<exists>r'<9. cell_at s r' c = Some d)"
    unfolding column_members by blast
  show ?thesis
    unfolding is_valid_def
    by (simp only: get_row_cells[OF assms(1,2)] get_column_cells[OF assms(1,3)] fst_conv snd_conv
          sum.case Let_def row col blk) auto
qed

theorem is_valid_iff_witness:
  "wf_grid (solution (Sudoku_init main_board)) \<and>
   is_valid (solution (Sudoku_init main_board)) 4 (0, 2) =
     Inr (\<not> ((\<exists>c'<9. cell_at (solution (Sudoku_init main_board)) 2 c' = Some 4) \<or>
              (\<exists>r'<9. cell_at (solution (Sudoku_init main_board)) r' 0 = Some 4) \<or>
              (\<exists>r'<9. \<exists>c'<9. r' div 3 = 2 div 3 \<and> c' div 3 = 0 div 3 \<and>
                  cell_at (solution (Sudoku_init main_board)) r' c' = Some 4))) \<and>
   is_valid (solution (Sudoku_init main_board)) 4 (0, 2) = Inr False \<and>
   is_valid (solution (Sudoku_init main_board)) 2 (0, 2) = Inr True"
proof -
  have wf: "wf_grid (solution (Sudoku_init main_board))"
    by code_simp
  have "is_valid (solution (Sudoku_init main_board)) 4 (0, 2) =
     Inr (\<not> ((\<exists>c'<9. cell_at (solution (Sudoku_init main_board)) 2 c' = Some 4) \<or>
              (\<exists>r'<9. cell_at (solution (Sudoku_init main_board)) r' 0 = Some 4) \<or>
              (\<exists>r'<9. \<exists>c'<9. r' div 3 = 2 div 3 \<and> c' div 3 = 0 div 3 \<and>
                  cell_at (solution (Sudoku_init main_board)) r' c' = Some 4)))"
    by (rule is_valid_iff[OF wf]) simp_all
  moreover have "is_valid (solution (Sudoku_init main_board)) 4 (0, 2) = Inr False"
    by code_simp
  moreover have "is_valid (solution (Sudoku_init main_board)) 2 (0, 2) = Inr True"
    by code_simp
  ultimately show ?thesis using wf by blast
qed

section \<open>Checking a board\<close>

text \<open>
  Claim C6. On a 9 by 9 working grid \<^verbatim>\<open>check()\<close> returns true exactly when every
  row, every column and every block has the set of its non-empty values equal to
  1 to 9. So it returns true only for a grid with no empty cell, and it returns false
  for every grid that has an empty cell, duplicates or not.
\<close>

theorem check_iff_regions_complete:
  assumes "wf_grid s"
  shows "check s = Inr (all_regions_complete s) \<and>
         (all_regions_complete s \<longrightarrow> full_grid s) \<and>
         (\<not> full_grid s \<longrightarrow> check s = Inr False)"
  using check_complete[OF assms] complete_full[OF assms] by auto

theorem check_iff_regions_complete_witness:
  "wf_grid (solution (Sudoku_init full_board)) \<and>
   check (solution (Sudoku_init full_board)) = Inr (all_regions_complete (solution (Sudoku_init full_board))) \<and>
   all_regions_complete (solution (Sudoku_init full_board)) \<and>
   full_grid (solution (Sudoku_init full_board)) \<and>
   wf_grid (solution (Sudoku_init main_board)) \<and>
   \<not> full_grid (solution (Sudoku_init main_board)) \<and>
   check (solution (Sudoku_init main_board)) = Inr False"
proof -
  have wf: "wf_grid (solution (Sudoku_init full_board))"
    by code_simp
  have complete: "all_regions_complete (solution (Sudoku_init full_board))"
    by code_simp
  have wf': "wf_grid (solution (Sudoku_init main_board))"
    by code_simp
  have gaps: "\<not> full_grid (solution (Sudoku_init main_board))"
    by code_simp
  from check_iff_regions_complete[OF wf] complete check_iff_regions_complete[OF wf'] gaps wf wf'
  show ?thesis by blast
qed

section \<open>Order of the region queries\<close>

text \<open>
  Claim C7, as amended. On a 9 by 9 working grid \<^verbatim>\<open>get_row(r)\<close> returns the cells of
  row \<open>r\<close> from left to right and \<^verbatim>\<open>get_column(c)\<close> the cells of column \<open>c\<close> from top
  to bottom. \<^verbatim>\<open>get_nine_square(x, y)\<close> returns the block that covers columns
  \<open>3x\<close> to \<open>3x + 2\<close> and rows \<open>3y\<close> to \<open>3y + 2\<close>, as three lists, one for each column
  from left to right, each holding that column's three cells from top to bottom.
\<close>

theorem region_queries_order:
  assumes "wf_grid s" "r < 9" "c < 9" "x < 3" "y < 3"
  shows "get_row s r = Inr (row_cells s r) \<and>
         get_column s c = Inr (column_cells s c) \<and>
         get_nine_square s x y =
           map (\<lambda>c. map (\<lambda>r. cell_at s r c) [3 * y..<3 * y + 3]) [3 * x..<3 * x + 3]"
  using get_row_cells[OF assms(1,2)] get_column_cells[OF assms(1,3)]
    get_nine_square_cells[OF assms(1,4,5)]
  by (simp add: row_cells_def column_cells_def)

theorem region_queries_order_witness:
  "wf_grid (solution (Sudoku_init full_board)) \<and>
   get_row (solution (Sudoku_init full_board)) 1 = Inr (row_cells (solution (Sudoku_init full_board)) 1) \<and>
   row_cells (solution (Sudoku_init full_board)) 1 = full_board ! 1 \<and>
   get_column (solution (Sudoku_init full_board)) 2 = Inr (column_cells (solution (Sudoku_init full_board)) 2) \<and>
   column_cells (solution (Sudoku_init full_board)) 2 = map (\<lambda>row. row ! 2) full_board \<and>
   get_nine_square (solution (Sudoku_init full_board)) 0 1 =
     map (\<lambda>c. map (\<lambda>r. cell_at (solution (Sudoku_init full_board)) r c) [3 * 1..<3 * 1 + 3]) [3 * 0..<3 * 0 + 3] \<and>
   get_nine_square (solution (Sudoku_init full_board)) 0 1 =
     [[Some 2, Some 5, Some 8], [Some 3, Some 6, Some 9], [Some 4, Some 7, Some 1]]"
proof -
  have wf: "wf_grid (solution (Sudoku_init full_board))"
    by code_simp
  have "get_row (solution (Sudoku_init full_board)) 1 = Inr (row_cells (solution (Sudoku_init full_board)) 1) \<and>
     get_column (solution (Sudoku_init full_board)) 2 = Inr (column_cells (solution (Sudoku_init full_board)) 2) \<and>
     get_nine_square (solution (Sudoku_init full_board)) 0 1 =
       map (\<lambda>c. map (\<lambda>r. cell_at (solution (Sudoku_init full_board)) r c) [3 * 1..<3 * 1 + 3]) [3 * 0..<3 * 0 + 3]"
    by (rule region_queries_order[OF wf]) simp_all
  moreover have "row_cells (solution (Sudoku_init full_board)) 1 = full_board ! 1"
    by code_simp
  moreover have "column_cells (solution (Sudoku_init full_board)) 2 = map (\<lambda>row. row ! 2) full_board"
    by code_simp
  moreover have "get_nine_square (solution (Sudoku_init full_board)) 0 1 =
     [[Some 2, Some 5, Some 8], [Some 3, Some 6, Some 9], [Some 4, Some 7, Some 1]]"
    by code_simp
  ultimately show ?thesis using wf by blast
qed

text \<open>
  The claim as written takes \<open>x\<close> for the block's rows and \<open>y\<close> for its columns and
  expects the cells row by row. For \<open>x = 0\<close>, \<open>y = 1\<close> on the complete board the method
  returns the cells of columns 0 to 2 and rows 3 to 5, column by column.
\<close>

theorem get_nine_square_counterexample:
  "concat (get_nine_square (solution (Sudoku_init full_board)) 0 1) =
     [Some 2, Some 5, Some 8, Some 3, Some 6, Some 9, Some 4, Some 7, Some 1] \<and>
   block_cells (solution (Sudoku_init full_board)) 0 1 =
     [Some 4, Some 5, Some 6, Some 7, Some 8, Some 9, Some 1, Some 2, Some 3] \<and>
   concat (get_nine_square (solution (Sudoku_init full_board)) 0 1) \<noteq>
     block_cells (solution (Sudoku_init full_board)) 0 1"
  by code_simp

section \<open>Construction of the grids\<close>

lemma store_entry_valid: "valid_entry e \<Longrightarrow> store_entry e = e"
  by (auto simp: valid_entry_def store_entry_def split: option.splits)

lemma zip_star_length:
  "length (zip_star board) = (if board = [] then 0 else Min (set (map length board)))"
proof (cases board)
  case Nil
  then show ?thesis by (simp add: zip_star_def)
next
  case (Cons r rs)
  have "fold min (map length rs) (length r) = Min (set (length r # map length rs))"
    by (simp only: Min.set_eq_fold)
  with Cons show ?thesis by (simp add: zip_star_def)
qed

lemma zip_star_nth:
  "k < length (zip_star board) \<Longrightarrow> zip_star board ! k = map (\<lambda>row. row ! k) board"
  by (cases board) (simp_all add: zip_star_def)

text \<open>
  For an input of 9 rows of 9 entries, each empty or 1 to 9, the working grid is 9 by 9
  and \<open>cell_at\<close> at row \<open>r\<close> and column \<open>c\<close> is entry \<open>c\<close> of the input's row \<open>r\<close>.
\<close>

lemma valid_input_Min: 
  assumes "valid_input board"
  shows "Min (set (map length board)) = 9"
proof -
  from assms have "board \<noteq> []" "\<And>row. row \<in> set board \<Longrightarrow> length row = 9"
    by (auto simp: valid_input_def list_all_iff)
  then have "set (map length board) = {9}"
    by (cases board) auto
  then show ?thesis by (simp del: set_map)
qed

lemma Sudoku_init_valid:
  assumes "valid_input board" "r < 9" "c < 9"
  shows "wf_grid (solution (Sudoku_init board))"
    and "cell_at (solution (Sudoku_init board)) r c = board ! r ! c"
proof -
  have len: "length board = 9" and ne: "board \<noteq> []"
    using assms(1) by (auto simp: valid_input_def)
  have zlen: "length (zip_star board) = 9"
    using zip_star_length[of board] valid_input_Min[OF assms(1)] ne by simp
  have col: "zip_star board ! k = map (\<lambda>row. row ! k) board" if "k < 9" for k
    using zip_star_nth[of k board] that zlen by simp
  show "wf_grid (solution (Sudoku_init board))"
    using zlen len col by (simp add: wf_grid_def Sudoku_init_def list_all_length)
  have "valid_entry (board ! r ! c)"
    using assms by (simp add: valid_input_def list_all_length)
  then show "cell_at (solution (Sudoku_init board)) r c = board ! r ! c"
    using assms(2,3) zlen len col[OF assms(3)]
    by (simp add: cell_at_def Sudoku_init_def store_entry_valid)
qed

text \<open>
  Claim C9, as amended. The constructor rejects nothing. For every list of rows it
  stores, in both grids, the transpose of the rows cut to the length of the shortest
  row (nothing for an empty list); an entry 0 is stored as empty and every other
  integer, inside 1 to 9 or not, is stored as it is.
\<close>

theorem Sudoku_init_stores:
  "initial_board (Sudoku_init board) = solution (Sudoku_init board) \<and>
   length (solution (Sudoku_init board)) = (if board = [] then 0 else Min (set (map length board))) \<and>
   (\<forall>k<length (solution (Sudoku_init board)).
      solution (Sudoku_init board) ! k = map (\<lambda>row. store_entry (row ! k)) board) \<and>
   store_entry e = (if e = Some 0 then None else e)"
  by (auto simp: Sudoku_init_def zip_star_length zip_star_nth store_entry_def
      simp del: set_map split: option.splits)

theorem Sudoku_init_stores_witness:
  "initial_board (Sudoku_init [[Some 1, Some 2], [Some 3]]) = solution (Sudoku_init [[Some 1, Some 2], [Some 3]]) \<and>
   length (solution (Sudoku_init [[Some 1, Some 2], [Some 3]])) = 1 \<and>
   solution (Sudoku_init [[Some 1, Some 2], [Some 3]]) ! 0 = [Some 1, Some 3] \<and>
   store_entry (Some 0) = None \<and> store_entry (Some 10) = Some 10"
proof -
  have len: "length (solution (Sudoku_init [[Some 1, Some 2], [Some 3]])) = 1"
    using Sudoku_init_stores[of "[[Some 1, Some 2], [Some 3]]" None] by simp
  then have "solution (Sudoku_init [[Some 1, Some 2], [Some 3]]) ! 0 =
      map (\<lambda>row. store_entry (row ! 0)) [[Some 1, Some 2], [Some 3]]"
    using Sudoku_init_stores[of "[[Some 1, Some 2], [Some 3]]" None] by simp
  then have "solution (Sudoku_init [[Some 1, Some 2], [Some 3]]) ! 0 = [Some 1, Some 3]"
    by (simp add: store_entry_def)
  moreover have "store_entry (Some 0) = None" "store_entry (Some 10) = Some 10"
    using Sudoku_init_stores[of "[]" "Some 0"] Sudoku_init_stores[of "[]" "Some 10"] by simp_all
  moreover have "initial_board (Sudoku_init [[Some 1, Some 2], [Some 3]]) = solution (Sudoku_init [[Some 1, Some 2], [Some 3]])"
    using Sudoku_init_stores[of "[[Some 1, Some 2], [Some 3]]" None] by blast
  ultimately show ?thesis using len by blast
qed

text \<open>
  Two rows of different lengths are accepted and the longer one is cut; an entry 10 is
  stored and an entry 0 becomes empty.
\<close>

theorem Sudoku_init_malformed_counterexample:
  "\<not> valid_input [[Some 1, Some 2], [Some 3]] \<and>
   Sudoku_init [[Some 1, Some 2], [Some 3]] =
     \<lparr>initial_board = [[Some 1, Some 3]], solution = [[Some 1, Some 3]]\<rparr> \<and>
   \<not> valid_input [[Some 0, Some 10]] \<and>
   Sudoku_init [[Some 0, Some 10]] =
     \<lparr>initial_board = [[None], [Some 10]], solution = [[None], [Some 10]]\<rparr>"
  by code_simp

section \<open>Solving a full grid\<close>

lemma find_empty_scan_full:
  "list_all (\<lambda>(i, j). j < length s \<and> i < length (s ! j) \<and> s ! j ! i \<noteq> None) ps \<Longrightarrow>
   find_empty_scan s ps = Inr None"
  by (induction ps) auto

lemma find_empty_full:
  assumes "wf_grid s" "full_grid s"
  shows "find_empty s = Inr None"
proof -
  have cell: "j < length s \<and> i < length (s ! j) \<and> s ! j ! i \<noteq> None" if "i < 9" "j < 9" for i j
  proof -
    from assms(1) that have len: "j < length s" "i < length (s ! j)"
      by (simp_all add: wf_grid_def list_all_length)
    then have "s ! j \<in> set s" "s ! j ! i \<in> set (s ! j)" by simp_all
    with assms(2) have "s ! j ! i \<noteq> None"
      unfolding full_grid_def list_all_iff by metis
    with len show ?thesis by simp
  qed
  show ?thesis
    unfolding find_empty_def
    by (rule find_empty_scan_full) (auto simp: list_all_iff cell simp del: not_None_eq)
qed

text \<open>
  Claim C10. When the 9 by 9 working grid has no empty cell, \<^verbatim>\<open>solve()\<close> succeeds and
  returns the grid as it is, whatever \<^verbatim>\<open>check()\<close> says of it: the full grid with a 1
  in every cell is returned although \<^verbatim>\<open>check()\<close> is false on it.
\<close>

theorem solve_full_grid:
  assumes "wf_grid s" "full_grid s"
  shows "solve (Suc depth) s = (Inr (Some s), s)"
  by (simp add: solve_def find_empty_full[OF assms])

theorem solve_full_grid_witness:
  "wf_grid (solution (Sudoku_init ones_board)) \<and>
   full_grid (solution (Sudoku_init ones_board)) \<and>
   check (solution (Sudoku_init ones_board)) = Inr False \<and>
   solve (Suc 0) (solution (Sudoku_init ones_board)) =
     (Inr (Some (solution (Sudoku_init ones_board))), solution (Sudoku_init ones_board))"
proof -
  have wf: "wf_grid (solution (Sudoku_init ones_board))"
    by code_simp
  have full: "full_grid (solution (Sudoku_init ones_board))"
    by code_simp
  have bad: "check (solution (Sudoku_init ones_board)) = Inr False"
    by code_simp
  from solve_full_grid[OF wf full, of 0] wf full bad show ?thesis by blast
qed

section \<open>The position of the first empty cell\<close>

text \<open>
  Claim C8. \<^verbatim>\<open>find_empty\<close> is to return the pair (row, column) of the first empty
  cell. On the complete board with the entry of row 0, column 1 removed it returns
  \<open>(1, 0)\<close>: the cell of row 1, column 0 holds 4, and the only empty cell is the one of
  row 0, column 1. The pair is (column, row), while \<^verbatim>\<open>backtrack_solve\<close> unpacks it as
  \<^verbatim>\<open>row, col\<close>.
\<close>

theorem find_empty_hole_board:
  "find_empty (solution (Sudoku_init hole_board)) = Inr (Some (1, 0)) \<and>
   hole_board ! 0 ! 1 = None \<and>
   hole_board ! 1 ! 0 = Some 4 \<and>
   cell_at (solution (Sudoku_init hole_board)) 0 1 = None \<and>
   cell_at (solution (Sudoku_init hole_board)) 1 0 = Some 4 \<and>
   get_row (solution (Sudoku_init hole_board)) 1 = Inr (full_board ! 1)"
  by code_simp

section \<open>Solving a board with empty cells\<close>

text \<open>
  Claim C1. The board with the entry of row 0, column 1 removed has a legal completion,
  the complete board, on which \<^verbatim>\<open>check()\<close> is true. \<^verbatim>\<open>solve()\<close> returns none on it,
  for every recursion limit of at least one call: it tests the candidates against the
  cell of row 1, column 0, whose row already holds every digit.
\<close>

theorem solve_hole_board_gives_up:
  "valid_input hole_board \<and>
   valid_input full_board \<and>
   hole_board[0 := (hole_board ! 0)[1 := Some 2]] = full_board \<and>
   check (solution (Sudoku_init full_board)) = Inr True \<and>
   solve (Suc depth) (solution (Sudoku_init hole_board)) = (Inr None, solution (Sudoku_init hole_board))"
  by code_simp

text \<open>
  Claim C4. On the board with two 2s in row 1 the root search fails and \<^verbatim>\<open>solve()\<close>
  returns none, for every recursion limit of at least two calls. The working grid it
  leaves differs from the constructed one: the clue 2 of row 1, column 0 was replaced
  by 9 and then cleared.
\<close>

theorem solve_dup_board_leaves_change:
  "valid_input dup_board \<and>
   solve (Suc (Suc depth)) (solution (Sudoku_init dup_board)) = (Inr None, grid_with dup_board 0 1 None) \<and>
   cell_at (solution (Sudoku_init dup_board)) 1 0 = Some 2 \<and>
   cell_at (grid_with dup_board 0 1 None) 1 0 = None \<and>
   grid_with dup_board 0 1 None \<noteq> solution (Sudoku_init dup_board)"
  by code_simp

subsection \<open>The entry point's puzzle\<close>

lemma main_find: "find_empty (grid_with main_board 0 2 (Some 2)) = Inr (Some (2, 0))"
  "find_empty (grid_with main_board 0 2 (Some 3)) = Inr (Some (2, 0))"
  by code_simp+

lemma main_facts_0:
  "is_valid (solution (Sudoku_init main_board)) 1 (0, 2) = Inr False"
  "is_valid (solution (Sudoku_init main_board)) 2 (0, 2) = Inr True"
  "set_cell (solution (Sudoku_init main_board)) 0 2 (Some 2) = Inr (grid_with main_board 0 2 (Some 2))"
  "find_empty (solution (Sudoku_init main_board)) = Inr (Some (2, 0))"
  by code_simp+

lemma main_facts_2:
  "is_valid (grid_with main_board 0 2 (Some 2)) 1 (0, 2) = Inr False"
  "is_valid (grid_with main_board 0 2 (Some 2)) 2 (0, 2) = Inr False"
  "is_valid (grid_with main_board 0 2 (Some 2)) 3 (0, 2) = Inr True"
  "set_cell (grid_with main_board 0 2 (Some 2)) 0 2 (Some 3) = Inr (grid_with main_board 0 2 (Some 3))"
  by code_simp+

lemma main_facts_3:
  "is_valid (grid_with main_board 0 2 (Some 3)) 1 (0, 2) = Inr False"
  "is_valid (grid_with main_board 0 2 (Some 3)) 2 (0, 2) = Inr True"
  "set_cell (grid_with main_board 0 2 (Some 3)) 0 2 (Some 2) = Inr (grid_with main_board 0 2 (Some 2))"
  by code_simp+

lemma main_step_0:
  "backtrack_solve depth (grid_with main_board 0 2 (Some 2)) = (Inl e, s) \<Longrightarrow>
   backtrack_solve (Suc depth) (solution (Sudoku_init main_board)) = (Inl e, s)"
  by (simp add: main_facts_0 range_1_10_def)

lemma main_step_2:
  "backtrack_solve depth (grid_with main_board 0 2 (Some 3)) = (Inl e, s) \<Longrightarrow>
   backtrack_solve (Suc depth) (grid_with main_board 0 2 (Some 2)) = (Inl e, s)"
  by (simp add: main_find main_facts_2 range_1_10_def)

lemma main_step_3:
  "backtrack_solve depth (grid_with main_board 0 2 (Some 2)) = (Inl e, s) \<Longrightarrow>
   backtrack_solve (Suc depth) (grid_with main_board 0 2 (Some 3)) = (Inl e, s)"
  by (simp add: main_find main_facts_3 range_1_10_def)

lemma main_loop:
  "fst (backtrack_solve depth (grid_with main_board 0 2 (Some 2))) = Inl RecursionError \<and>
   fst (backtrack_solve depth (grid_with main_board 0 2 (Some 3))) = Inl RecursionError"
proof (induction depth)
  case 0
  show ?case by simp
next
  case (Suc depth)
  obtain s2 where s2: "backtrack_solve depth (grid_with main_board 0 2 (Some 2)) = (Inl RecursionError, s2)"
    using Suc by (cases "backtrack_solve depth (grid_with main_board 0 2 (Some 2))") simp
  obtain s3 where s3: "backtrack_solve depth (grid_with main_board 0 2 (Some 3)) = (Inl RecursionError, s3)"
    using Suc by (cases "backtrack_solve depth (grid_with main_board 0 2 (Some 3))") simp
  show ?case
    by (simp only: main_step_2[OF s3] main_step_3[OF s2] fst_conv)
qed

text \<open>
  Claim C2. On the puzzle of the script's entry point the search does not end: whatever
  number of nested calls the interpreter allows, \<^verbatim>\<open>backtrack_solve\<close> exceeds it. The
  first empty cell found is always the one of row 0, column 2, and each call writes 2
  or 3 into the cell of row 2, column 0 instead.
\<close>

theorem backtrack_solve_main_board_never_returns:
  "valid_input main_board \<and>
   fst (backtrack_solve depth (solution (Sudoku_init main_board))) = Inl RecursionError \<and>
   fst (solve depth (solution (Sudoku_init main_board))) = Inl RecursionError"
proof -
  have valid: "valid_input main_board"
    by code_simp
  have run: "fst (backtrack_solve depth (solution (Sudoku_init main_board))) = Inl RecursionError"
  proof (cases depth)
    case 0
    then show ?thesis by simp
  next
    case (Suc n)
    obtain s where "backtrack_solve n (grid_with main_board 0 2 (Some 2)) = (Inl RecursionError, s)"
      using main_loop[of n] by (cases "backtrack_solve n (grid_with main_board 0 2 (Some 2))") simp
    from main_step_0[OF this] Suc show ?thesis by simp
  qed
  then have "fst (solve depth (solution (Sudoku_init main_board))) = Inl RecursionError"
    by (cases "backtrack_solve depth (solution (Sudoku_init main_board))") (simp add: solve_def)
  with valid run show ?thesis by blast
qed

subsection \<open>A clue that is overwritten\<close>

lemma two_clue_find:
  "find_empty (solution (Sudoku_init two_clue_board)) = Inr (Some (1, 0))"
  "find_empty (grid_with two_clue_board 0 1 (Some 2)) = Inr (Some (1, 0))"
  "find_empty (grid_with two_clue_board 0 1 (Some 3)) = Inr (Some (1, 0))"
  by code_simp+

lemma two_clue_facts_0:
  "is_valid (solution (Sudoku_init two_clue_board)) 1 (0, 1) = Inr False"
  "is_valid (solution (Sudoku_init two_clue_board)) 2 (0, 1) = Inr True"
  "set_cell (solution (Sudoku_init two_clue_board)) 0 1 (Some 2) = Inr (grid_with two_clue_board 0 1 (Some 2))"
  by code_simp+

lemma two_clue_facts_2:
  "is_valid (grid_with two_clue_board 0 1 (Some 2)) 1 (0, 1) = Inr False"
  "is_valid (grid_with two_clue_board 0 1 (Some 2)) 2 (0, 1) = Inr False"
  "is_valid (grid_with two_clue_board 0 1 (Some 2)) 3 (0, 1) = Inr True"
  "set_cell (grid_with two_clue_board 0 1 (Some 2)) 0 1 (Some 3) = Inr (grid_with two_clue_board 0 1 (Some 3))"
  by code_simp+

lemma two_clue_facts_3:
  "is_valid (grid_with two_clue_board 0 1 (Some 3)) 1 (0, 1) = Inr False"
  "is_valid (grid_with two_clue_board 0 1 (Some 3)) 2 (0, 1) = Inr True"
  "set_cell (grid_with two_clue_board 0 1 (Some 3)) 0 1 (Some 2) = Inr (grid_with two_clue_board 0 1 (Some 2))"
  by code_simp+

lemma two_clue_step_0:
  "backtrack_solve depth (grid_with two_clue_board 0 1 (Some 2)) = (Inl e, s) \<Longrightarrow>
   backtrack_solve (Suc depth) (solution (Sudoku_init two_clue_board)) = (Inl e, s)"
  by (simp add: two_clue_find two_clue_facts_0 range_1_10_def del: One_nat_def)

lemma two_clue_step_2:
  "backtrack_solve depth (grid_with two_clue_board 0 1 (Some 3)) = (Inl e, s) \<Longrightarrow>
   backtrack_solve (Suc depth) (grid_with two_clue_board 0 1 (Some 2)) = (Inl e, s)"
  by (simp add: two_clue_find two_clue_facts_2 range_1_10_def del: One_nat_def)

lemma two_clue_step_3:
  "backtrack_solve depth (grid_with two_clue_board 0 1 (Some 2)) = (Inl e, s) \<Longrightarrow>
   backtrack_solve (Suc depth) (grid_with two_clue_board 0 1 (Some 3)) = (Inl e, s)"
  by (simp add: two_clue_find two_clue_facts_3 range_1_10_def del: One_nat_def)

lemma two_clue_loop:
  "(\<exists>s. backtrack_solve depth (grid_with two_clue_board 0 1 (Some 2)) = (Inl RecursionError, s) \<and>
        s \<in> {grid_with two_clue_board 0 1 (Some 2), grid_with two_clue_board 0 1 (Some 3)}) \<and>
   (\<exists>s. backtrack_solve depth (grid_with two_clue_board 0 1 (Some 3)) = (Inl RecursionError, s) \<and>
        s \<in> {grid_with two_clue_board 0 1 (Some 2), grid_with two_clue_board 0 1 (Some 3)})"
proof (induction depth)
  case 0
  show ?case by simp
next
  case (Suc depth)
  from Suc obtain s2 where
    s2: "backtrack_solve depth (grid_with two_clue_board 0 1 (Some 2)) = (Inl RecursionError, s2)"
    and in2: "s2 \<in> {grid_with two_clue_board 0 1 (Some 2), grid_with two_clue_board 0 1 (Some 3)}"
    by blast
  from Suc obtain s3 where
    s3: "backtrack_solve depth (grid_with two_clue_board 0 1 (Some 3)) = (Inl RecursionError, s3)"
    and in3: "s3 \<in> {grid_with two_clue_board 0 1 (Some 2), grid_with two_clue_board 0 1 (Some 3)}"
    by blast
  show ?case
    using two_clue_step_2[OF s3] two_clue_step_3[OF s2] in2 in3 by blast
qed

text \<open>
  Claim C3. On the board with the clues 1 and 9 in column 0, the given grid holds 9 at
  row 1, column 0. The search writes 2 and 3 into that cell in turn, and when
  \<^verbatim>\<open>solve()\<close> stops with the recursion limit exceeded the working grid holds 2 or 3
  there, not 9.
\<close>

theorem solve_two_clue_board_overwrites_clue:
  "valid_input two_clue_board \<and>
   cell_at (initial_board (Sudoku_init two_clue_board)) 1 0 = Some 9 \<and>
   fst (solve (Suc depth) (solution (Sudoku_init two_clue_board))) = Inl RecursionError \<and>
   cell_at (snd (solve (Suc depth) (solution (Sudoku_init two_clue_board)))) 1 0 \<in> {Some 2, Some 3}"
proof -
  have valid: "valid_input two_clue_board"
    by code_simp
  have clue: "cell_at (initial_board (Sudoku_init two_clue_board)) 1 0 = Some 9"
    by code_simp
  have cells: "cell_at (grid_with two_clue_board 0 1 (Some 2)) 1 0 = Some 2"
    "cell_at (grid_with two_clue_board 0 1 (Some 3)) 1 0 = Some 3"
    by code_simp+
  obtain s where s: "backtrack_solve depth (grid_with two_clue_board 0 1 (Some 2)) = (Inl RecursionError, s)"
    and ins: "s \<in> {grid_with two_clue_board 0 1 (Some 2), grid_with two_clue_board 0 1 (Some 3)}"
    using two_clue_loop[of depth] by blast
  have run: "solve (Suc depth) (solution (Sudoku_init two_clue_board)) = (Inl RecursionError, s)"
    unfolding solve_def two_clue_step_0[OF s] by simp
  from ins cells have "cell_at s 1 0 \<in> {Some 2, Some 3}"
    by auto
  with valid clue run show ?thesis by simp
qed

end
